theory Spec2Isabelle
  imports Complex_Main
begin

section \<open>Conventions of the embedding\<close>

text \<open>
  The program is the Python package \<^verbatim>\<open>oakley_trading\<close>. Python floats are modelled as
  the reals (rounding of IEEE doubles is left out), Python ints as \<^typ>\<open>int\<close>, \<^verbatim>\<open>None\<close> as
  \<^const>\<open>None\<close>. A function that can raise returns a sum, \<open>Inl\<close> holding the exception; a
  function with effects takes the world and returns the new one. The exchange, the system
  clock and the file system are fields of the world: what a call to them answers is an
  input of the model, fixed during one operation.
\<close>

datatype exn =
    RuntimeError string
  | ValueError string
  | AttributeError string
  | KeyError string
  | ZeroDivisionError
  | IntegrityError
  | OperationalError

text \<open>Python truthiness of an optional float (\<^verbatim>\<open>None\<close> and \<^verbatim>\<open>0.0\<close> are falsy) and of a string.\<close>

fun truthy :: "real option \<Rightarrow> bool" where
  "truthy None = False"
| "truthy (Some x) = (x \<noteq> 0)"

definition truthy_str :: "string option \<Rightarrow> bool" where
  "truthy_str s = (case s of None \<Rightarrow> False | Some t \<Rightarrow> t \<noteq> [])"

text \<open>Sequencing of computations that can raise.\<close>

definition then_do :: "exn + 'a \<Rightarrow> ('a \<Rightarrow> exn + 'b) \<Rightarrow> exn + 'b" where
  "then_do m f = (case m of Inl e \<Rightarrow> Inl e | Inr v \<Rightarrow> f v)"

text \<open>
  \<^verbatim>\<open>round(x)\<close> of Python 3 rounds half to even; \<^verbatim>\<open>round(x, n)\<close> does so at \<open>n\<close> decimals;
  \<^verbatim>\<open>int(x)\<close> truncates towards zero.
\<close>

definition py_round :: "real \<Rightarrow> int" where
  "py_round x =
     (let f = \<lfloor>x\<rfloor>; d = x - of_int f
      in if d < 1/2 then f else if 1/2 < d then f + 1 else if even f then f else f + 1)"

definition py_round_nd :: "real \<Rightarrow> nat \<Rightarrow> real" where
  "py_round_nd x n = of_int (py_round (x * 10 ^ n)) / 10 ^ n"

definition py_int :: "real \<Rightarrow> int" where
  "py_int x = (if 0 \<le> x then \<lfloor>x\<rfloor> else \<lceil>x\<rceil>)"

text \<open>\<^verbatim>\<open>str(n)\<close> of a non-negative int, in decimal; a negative one gets its sign.\<close>

definition digit_char :: "nat \<Rightarrow> char" where
  "digit_char d = ''0123456789'' ! d"

function str_nat :: "nat \<Rightarrow> string" where
  "str_nat n = (if n < 10 then [digit_char n] else str_nat (n div 10) @ [digit_char (n mod 10)])"
  by pat_completeness auto
termination
  by (relation "measure (\<lambda>n. n)") auto

definition str_int :: "int \<Rightarrow> string" where
  "str_int i = (if i < 0 then CHR ''-'' # str_nat (nat (- i)) else str_nat (nat i))"

text \<open>\<^verbatim>\<open>str.upper()\<close> and \<^verbatim>\<open>str.lower()\<close>, on ASCII letters.\<close>

definition upper_char :: "char \<Rightarrow> char" where
  "upper_char c =
     (case map_of (zip ''abcdefghijklmnopqrstuvwxyz'' ''ABCDEFGHIJKLMNOPQRSTUVWXYZ'') c of
        Some u \<Rightarrow> u
      | None \<Rightarrow> c)"

definition lower_char :: "char \<Rightarrow> char" where
  "lower_char c =
     (case map_of (zip ''ABCDEFGHIJKLMNOPQRSTUVWXYZ'' ''abcdefghijklmnopqrstuvwxyz'') c of
        Some l \<Rightarrow> l
      | None \<Rightarrow> c)"

definition upper :: "string \<Rightarrow> string" where
  "upper s = map upper_char s"

definition lower :: "string \<Rightarrow> string" where
  "lower s = map lower_char s"

section \<open>Data model\<close>

subsection \<open>The ledger (db.py)\<close>

text \<open>
  A row of table \<^verbatim>\<open>trades\<close>. Columns declared \<^verbatim>\<open>NOT NULL\<close> are plain values, nullable
  ones are options. \<^verbatim>\<open>entry_price\<close> and \<^verbatim>\<open>fee_usdt_value\<close> are nullable in the schema, but
  \<^verbatim>\<open>save_trade\<close>, the only statement that inserts, always gives them a value. The audit
  columns \<^verbatim>\<open>created_at\<close> and \<^verbatim>\<open>updated_at\<close> are left out: no code reads them.
\<close>

record trade_row =
  row_id :: nat
  trade_id :: string
  symbol :: string
  side :: string
  direction :: string
  quantity :: real
  price :: real
  entry_price :: real
  exit_price :: "real option"
  total_value :: real
  pnl :: "real option"
  pnl_percent :: "real option"
  fee_usdt_value :: real
  stop_loss :: "real option"
  trailing_stop_price :: "real option"
  highest_price :: "real option"
  trailing_stop_pct :: "real option"
  entry_type :: "string option"
  exit_reason :: "string option"
  signal_strength :: "real option"
  atr :: "real option"
  is_open :: bool
  holding_period :: "int option"
  timestamp :: int
  exit_time :: "int option"

text \<open>The dict \<^verbatim>\<open>trade_record\<close> that \<^verbatim>\<open>buy\<close> builds and \<^verbatim>\<open>save_trade\<close> inserts.\<close>

record trade_record =
  tr_trade_id :: string
  tr_symbol :: string
  tr_side :: string
  tr_direction :: string
  tr_quantity :: real
  tr_price :: real
  tr_entry_price :: real
  tr_total_value :: real
  tr_fee_usdt_value :: real
  tr_stop_loss :: "real option"
  tr_trailing_stop_price :: "real option"
  tr_highest_price :: "real option"
  tr_trailing_stop_pct :: "real option"
  tr_entry_type :: "string option"
  tr_atr :: "real option"
  tr_is_open :: bool
  tr_timestamp :: int

text \<open>
  One entry of the dict \<^verbatim>\<open>updates\<close> given to \<^verbatim>\<open>update_trade\<close>: a column of its \<^verbatim>\<open>allowed\<close>
  set with the new value, or any other key.
\<close>

datatype upd =
    Set_exit_price real
  | Set_exit_time int
  | Set_pnl real
  | Set_pnl_percent real
  | Set_fee_usdt_value real
  | Set_stop_loss real
  | Set_trailing_stop_price real
  | Set_highest_price real
  | Set_trailing_stop_pct real
  | Set_exit_reason string
  | Set_is_open bool
  | Set_holding_period int
  | Set_entry_type string
  | Other_key string

text \<open>
  The payload of a recovery item is JSON text; it is modelled by the value it was dumped
  from, which \<^verbatim>\<open>json.loads\<close> gives back.
\<close>

datatype payload =
    Full_record trade_record
  | Partial_update string "upd list"

record recovery_item =
  item_id :: nat
  trade_data :: payload
  reason :: string
  resolved :: bool

subsection \<open>The exchange (data_service.py, client.py)\<close>

record symbol_info =
  si_step_size :: real
  si_min_notional :: real
  si_min_qty :: real

record fill =
  commission :: real
  commissionAsset :: string

text \<open>
  A market order's response: \<^verbatim>\<open>float(order.get("executedQty", 0))\<close>,
  \<^verbatim>\<open>float(order.get("cummulativeQuoteQty", 0))\<close>, \<^verbatim>\<open>order.get("orderId")\<close> as text when
  present, and the fills.
\<close>

record order =
  executedQty :: real
  cummulativeQuoteQty :: real
  orderId :: "string option"
  fills :: "fill list"

record balance =
  asset :: string
  free :: real
  locked :: real
  total :: real

record account =
  balances :: "balance list"
  acct_error :: "string option"

datatype api_call =
    Ticker_call string
  | Market_buy string real
  | Market_sell string real

subsection \<open>Cache files and lock markers (common/cache.py, engine.py)\<close>

record price_data =
  pd_symbol :: string
  pd_price :: real
  pd_stale :: bool

text \<open>A cache file: unreadable, or the JSON payload \<^verbatim>\<open>{"_ts": ..., "value": ...}\<close>.\<close>

datatype cache_file =
    Corrupt
  | Entry real price_data

text \<open>
  A lock marker's content: \<^verbatim>\<open>pid|time\<close> as the code writes it, or text that does not
  split in two at \<^verbatim>\<open>|\<close>, or two parts the second of which is no float, or a file that
  cannot be read.
\<close>

datatype lock_file =
    Marker nat real
  | Wrong_parts
  | Bad_time
  | Unreadable

subsection \<open>The world\<close>

record world =
  trades :: "trade_row list"
  next_row_id :: nat
  config :: "string \<rightharpoonup> string"
  recovery_queue :: "recovery_item list"
  next_item_id :: nat
  db_faults :: "bool list"
  locks :: "string \<rightharpoonup> lock_file"
  lock_write_ok :: bool
  cache_files :: "string \<rightharpoonup> cache_file"
  now :: real
  pid :: nat
  float_of_str :: "string \<Rightarrow> real option"
  has_credentials :: bool
  ticker :: "string \<Rightarrow> exn + real"
  the_account :: account
  atr_of :: "string \<Rightarrow> real option"
  exchange_info :: "string \<Rightarrow> exn + symbol_info option"
  order_reply :: "string \<Rightarrow> string \<Rightarrow> real \<Rightarrow> exn + order"
  api_log :: "api_call list"

text \<open>
  \<^item> \<open>trades\<close>, \<open>config\<close>, \<open>recovery_queue\<close>: the three tables of the SQLite store, with
    the next \<^verbatim>\<open>AUTOINCREMENT\<close> ids. \<open>db_faults\<close> says, for each coming write statement in
    turn, whether the store refuses it (\<^verbatim>\<open>sqlite3.OperationalError\<close>: locked, disk full);
    an empty list means no fault. Reads are taken to succeed.
  \<^item> \<open>locks\<close>: the lock markers under \<^verbatim>\<open>Config.lock_dir\<close>, by symbol; \<open>lock_write_ok\<close>:
    whether \<^verbatim>\<open>write_text\<close> of a marker succeeds.
  \<^item> \<open>cache_files\<close>: the files of \<^verbatim>\<open>FileCache("market")\<close> that hold prices, by file name.
  \<^item> \<open>now\<close>: \<^verbatim>\<open>time.time()\<close>; \<open>pid\<close>: \<^verbatim>\<open>os.getpid()\<close>; \<open>float_of_str\<close>: Python's \<^verbatim>\<open>float\<close> on a
    string, \<open>None\<close> where it raises \<^verbatim>\<open>ValueError\<close>.
  \<^item> \<open>has_credentials\<close>: whether \<^verbatim>\<open>get_client()\<close> returns; \<open>ticker\<close>: what
    \<^verbatim>\<open>float(api_call(client.get_symbol_ticker, symbol)["price"])\<close> gives; \<open>the_account\<close>: the
    answer of \<^verbatim>\<open>get_account()\<close>; \<open>atr_of\<close>: the answer of \<^verbatim>\<open>calculate_atr\<close>;
    \<open>exchange_info\<close>: the entry of \<^verbatim>\<open>_exchange_info\<close> after \<^verbatim>\<open>_load_exchange_info\<close>, \<open>None\<close>
    when the symbol stays unknown; \<open>order_reply\<close>: the venue's answer to a market order.
  \<^item> \<open>api_log\<close>: the calls made to the venue for tickers and orders, oldest first.
\<close>

section \<open>Ledger operations (db.py)\<close>

definition db_fault :: "world \<Rightarrow> bool" where
  "db_fault w = (case db_faults w of [] \<Rightarrow> False | f # _ \<Rightarrow> f)"

definition db_tick :: "world \<Rightarrow> world" where
  "db_tick w = w\<lparr>db_faults := tl (db_faults w)\<rparr>"

definition row_of_record :: "nat \<Rightarrow> trade_record \<Rightarrow> trade_row" where
  "row_of_record n t =
     \<lparr>row_id = n, trade_id = tr_trade_id t, symbol = tr_symbol t, side = tr_side t,
      direction = tr_direction t, quantity = tr_quantity t, price = tr_price t,
      entry_price = tr_entry_price t, exit_price = None, total_value = tr_total_value t,
      pnl = Some 0, pnl_percent = Some 0, fee_usdt_value = tr_fee_usdt_value t,
      stop_loss = tr_stop_loss t, trailing_stop_price = tr_trailing_stop_price t,
      highest_price = tr_highest_price t, trailing_stop_pct = tr_trailing_stop_pct t,
      entry_type = tr_entry_type t, exit_reason = None, signal_strength = None,
      atr = tr_atr t, is_open = tr_is_open t, holding_period = None,
      timestamp = tr_timestamp t, exit_time = None\<rparr>"

text \<open>\<^verbatim>\<open>save_trade\<close>: the insert fails on a store fault and on a \<^verbatim>\<open>trade_id\<close> already there
  (the column is \<^verbatim>\<open>UNIQUE\<close>).\<close>

definition save_trade :: "world \<Rightarrow> trade_record \<Rightarrow> (exn + nat) \<times> world" where
  "save_trade w t =
     (if db_fault w then (Inl OperationalError, db_tick w)
      else if tr_trade_id t \<in> set (map trade_id (trades w)) then (Inl IntegrityError, db_tick w)
      else (Inr (next_row_id w),
            (db_tick w)\<lparr>trades := trades w @ [row_of_record (next_row_id w) t],
                         next_row_id := Suc (next_row_id w)\<rparr>))"

fun allowed :: "upd \<Rightarrow> bool" where
  "allowed (Other_key k) = False"
| "allowed u = True"

fun apply_upd :: "upd \<Rightarrow> trade_row \<Rightarrow> trade_row" where
  "apply_upd (Set_exit_price v) r = r\<lparr>exit_price := Some v\<rparr>"
| "apply_upd (Set_exit_time v) r = r\<lparr>exit_time := Some v\<rparr>"
| "apply_upd (Set_pnl v) r = r\<lparr>pnl := Some v\<rparr>"
| "apply_upd (Set_pnl_percent v) r = r\<lparr>pnl_percent := Some v\<rparr>"
| "apply_upd (Set_fee_usdt_value v) r = r\<lparr>fee_usdt_value := v\<rparr>"
| "apply_upd (Set_stop_loss v) r = r\<lparr>stop_loss := Some v\<rparr>"
| "apply_upd (Set_trailing_stop_price v) r = r\<lparr>trailing_stop_price := Some v\<rparr>"
| "apply_upd (Set_highest_price v) r = r\<lparr>highest_price := Some v\<rparr>"
| "apply_upd (Set_trailing_stop_pct v) r = r\<lparr>trailing_stop_pct := Some v\<rparr>"
| "apply_upd (Set_exit_reason v) r = r\<lparr>exit_reason := Some v\<rparr>"
| "apply_upd (Set_is_open v) r = r\<lparr>is_open := v\<rparr>"
| "apply_upd (Set_holding_period v) r = r\<lparr>holding_period := Some v\<rparr>"
| "apply_upd (Set_entry_type v) r = r\<lparr>entry_type := Some v\<rparr>"
| "apply_upd (Other_key k) r = r"

definition update_trade :: "world \<Rightarrow> string \<Rightarrow> upd list \<Rightarrow> (exn + unit) \<times> world" where
  "update_trade w tid updates =
     (let sets = filter allowed updates
      in if sets = [] then (Inr (), w)
         else if db_fault w then (Inl OperationalError, db_tick w)
         else (Inr (),
               (db_tick w)\<lparr>trades :=
                  map (\<lambda>r. if trade_id r = tid then fold apply_upd sets r else r) (trades w)\<rparr>))"

definition get_open_trades :: "world \<Rightarrow> trade_row list" where
  "get_open_trades w = sort_key timestamp (filter is_open (trades w))"

definition get_open_trade_by_symbol :: "world \<Rightarrow> string \<Rightarrow> trade_row option" where
  "get_open_trade_by_symbol w s = find (\<lambda>r. symbol r = s \<and> is_open r) (trades w)"

definition get_trade_by_id :: "world \<Rightarrow> string \<Rightarrow> trade_row option" where
  "get_trade_by_id w tid = find (\<lambda>r. trade_id r = tid) (trades w)"

definition get_config_value :: "world \<Rightarrow> string \<Rightarrow> string option" where
  "get_config_value w k = config w k"

definition set_config_value :: "world \<Rightarrow> string \<Rightarrow> string \<Rightarrow> (exn + unit) \<times> world" where
  "set_config_value w k v =
     (if db_fault w then (Inl OperationalError, db_tick w)
      else (Inr (), (db_tick w)\<lparr>config := (config w)(k \<mapsto> v)\<rparr>))"

definition add_to_recovery_queue :: "world \<Rightarrow> payload \<Rightarrow> string \<Rightarrow> (exn + nat) \<times> world" where
  "add_to_recovery_queue w d r =
     (if db_fault w then (Inl OperationalError, db_tick w)
      else (Inr (next_item_id w),
            (db_tick w)\<lparr>recovery_queue := recovery_queue w @
                           [\<lparr>item_id = next_item_id w, trade_data = d, reason = r, resolved = False\<rparr>],
                         next_item_id := Suc (next_item_id w)\<rparr>))"



section \<open>Configuration (common/config.py, engine.py)\<close>

text \<open>\<^verbatim>\<open>getattr(Config, key)\<close> for the numeric trading defaults.\<close>

definition Config_default :: "string \<Rightarrow> real option" where
  "Config_default k =
     (if k = ''default_allocation'' then Some 0.15
      else if k = ''default_stop_loss_pct'' then Some 0.05
      else if k = ''default_trailing_stop_pct'' then Some 0.03
      else if k = ''max_portfolio_exposure'' then Some 0.95
      else if k = ''max_capital_at_risk'' then Some 999999
      else if k = ''risk_per_trade'' then Some 0.98
      else if k = ''min_trade_usdt'' then Some 10
      else if k = ''cash_buffer'' then Some 0.01
      else if k = ''stop_loss_atr_multiplier'' then Some 1.5
      else None)"

definition Config_stop_loss_type :: string where
  "Config_stop_loss_type = ''FIXED''"

definition Config_enable_trailing_stops :: bool where
  "Config_enable_trailing_stops = True"

definition stale_cache_max_age :: real where
  "stale_cache_max_age = 86400"

definition cache_ttl_price :: real where
  "cache_ttl_price = 15"

definition get_effective_config :: "world \<Rightarrow> string \<Rightarrow> exn + real" where
  "get_effective_config w k =
     (case get_config_value w k of
        Some s \<Rightarrow> (case float_of_str w s of None \<Rightarrow> Inl (ValueError s) | Some v \<Rightarrow> Inr v)
      | None \<Rightarrow> (case Config_default k of None \<Rightarrow> Inl (AttributeError k) | Some v \<Rightarrow> Inr v))"

section \<open>Market data (common/cache.py, data_service.py)\<close>

definition key_path :: "string \<Rightarrow> string" where
  "key_path k =
     map (\<lambda>c. if c = CHR ''/'' \<or> c = CHR 0x5C \<or> c = CHR ''='' then CHR ''_'' else c) k
       @ ''.json''"

text \<open>\<^verbatim>\<open>FileCache.get(key, ttl)\<close>: within the TTL the value; else, up to
  \<^verbatim>\<open>stale_cache_max_age\<close>, the value with \<^verbatim>\<open>_stale\<close> set; else nothing.\<close>

definition cache_get :: "world \<Rightarrow> string \<Rightarrow> real option \<Rightarrow> price_data option" where
  "cache_get w k ttl =
     (case cache_files w (key_path k) of
        None \<Rightarrow> None
      | Some Corrupt \<Rightarrow> None
      | Some (Entry ts v) \<Rightarrow>
          (let age = now w - ts
           in if (case ttl of None \<Rightarrow> False | Some t \<Rightarrow> age \<le> t) then Some v
              else if age \<le> stale_cache_max_age then Some (v\<lparr>pd_stale := True\<rparr>)
              else None))"

definition cache_set :: "world \<Rightarrow> string \<Rightarrow> price_data \<Rightarrow> world" where
  "cache_set w k v = w\<lparr>cache_files := (cache_files w)(key_path k \<mapsto> Entry (now w) v)\<rparr>"

definition log_call :: "world \<Rightarrow> api_call \<Rightarrow> world" where
  "log_call w c = w\<lparr>api_log := api_log w @ [c]\<rparr>"

definition get_price :: "world \<Rightarrow> string \<Rightarrow> price_data option \<times> world" where
  "get_price w s =
     (let cache_key = ''price_'' @ s
      in case cache_get w cache_key (Some cache_ttl_price) of
           Some cached \<Rightarrow> (Some cached, w)
         | None \<Rightarrow>
             (if \<not> has_credentials w then (cache_get w cache_key None, w)
              else (case ticker w s of
                      Inr p \<Rightarrow>
                        (let result = \<lparr>pd_symbol = s, pd_price = p, pd_stale = False\<rparr>
                         in (Some result, cache_set (log_call w (Ticker_call s)) cache_key result))
                    | Inl e \<Rightarrow> (cache_get w cache_key None, log_call w (Ticker_call s)))))"

definition default_symbol_info :: symbol_info where
  "default_symbol_info = \<lparr>si_step_size = 0.00001, si_min_notional = 10, si_min_qty = 0.00001\<rparr>"

definition get_exchange_info :: "world \<Rightarrow> string \<Rightarrow> exn + symbol_info" where
  "get_exchange_info w s =
     then_do (exchange_info w s)
       (\<lambda>i. Inr (case i of None \<Rightarrow> default_symbol_info | Some info \<Rightarrow> info))"

text \<open>The body of \<^verbatim>\<open>step_size\<close> once the step is known.\<close>

definition quantize :: "real \<Rightarrow> real \<Rightarrow> real" where
  "quantize step q =
     (if step \<le> 0 then py_round_nd q 6
      else (let precision = nat (max 0 (py_round (- log 10 step)));
                floored = of_int \<lfloor>q / step\<rfloor> * step
            in py_round_nd floored precision))"

definition step_size :: "world \<Rightarrow> string \<Rightarrow> real \<Rightarrow> exn + real" where
  "step_size w s q =
     then_do (get_exchange_info w s) (\<lambda>info. Inr (quantize (si_step_size info) q))"

definition execute_order :: "world \<Rightarrow> string \<Rightarrow> string \<Rightarrow> real \<Rightarrow> (exn + order) \<times> world" where
  "execute_order w s sd q =
     (if \<not> has_credentials w then (Inl (RuntimeError ''Binance credentials not configured''), w)
      else (case step_size w s q of
              Inl e \<Rightarrow> (Inl e, w)
            | Inr formatted_qty \<Rightarrow>
                (if formatted_qty \<le> 0
                 then (Inl (RuntimeError ''Quantity too small after step_size adjustment''), w)
                 else if sd = ''BUY''
                 then (order_reply w s sd formatted_qty, log_call w (Market_buy s formatted_qty))
                 else if sd = ''SELL''
                 then (order_reply w s sd formatted_qty, log_call w (Market_sell s formatted_qty))
                 else (Inl (ValueError ''Invalid side''), w))))"

section \<open>The trading engine (engine.py)\<close>

subsection \<open>Results\<close>

text \<open>
  The failure dicts \<^verbatim>\<open>{"success": False, "reason": ...}\<close>, one constructor for each
  message of the source, with the values the message is formatted from.
\<close>

datatype refusal =
    Trading_is_halted
  | Already_have_an_open_position string
  | Cannot_fetch_account string
  | No_equity_available
  | Portfolio_exposure_at_max real real
  | Trade_amount_below_minimum real real
  | Cannot_fetch_price string
  | Order_failed exn
  | Order_filled_0_quantity
  | No_open_position_found string
  | Cannot_acquire_lock string
  | Sell_order_failed exn
  | Sell_order_filled_0_quantity

text \<open>The dict \<^verbatim>\<open>trade_info\<close> of a dry-run buy.\<close>

record plan =
  pl_symbol :: string
  pl_side :: string
  pl_quantity :: real
  pl_price :: real
  pl_entry_price :: real
  pl_total_value :: real
  pl_fee_usdt_value :: real
  pl_stop_loss :: real
  pl_trailing_stop_price :: "real option"
  pl_trailing_stop_pct :: real
  pl_highest_price :: real
  pl_entry_type :: "string option"
  pl_allocation_used :: real
  pl_atr :: "real option"
  pl_stop_loss_type :: string

text \<open>\<^verbatim>\<open>{"success": True, "trade": ..., "dry_run": ...}\<close> or a refusal.\<close>

datatype buy_result =
    Plan plan
  | Bought trade_record
  | Buy_refused refusal

record close_report =
  cr_trade_id :: string
  cr_symbol :: string
  cr_entry_price :: real
  cr_exit_price :: real
  cr_quantity :: real
  cr_pnl :: real
  cr_pnl_percent :: real
  cr_fee_usdt_value :: real
  cr_holding_period :: "int option"
  cr_reason :: string

datatype close_result =
    Preview close_report
  | Closed close_report
  | Close_refused refusal

subsection \<open>Helpers\<close>

definition get_usdt_balance :: "world \<Rightarrow> exn + real" where
  "get_usdt_balance w =
     (let account = the_account w
      in if truthy_str (acct_error account)
         then Inl (RuntimeError (''Cannot fetch account: '' @ the (acct_error account)))
         else (case find (\<lambda>b. asset b = ''USDT'') (balances account) of
                 None \<Rightarrow> Inr 0
               | Some usdt \<Rightarrow> Inr (free usdt)))"

record position =
  pos_trade :: trade_row
  current_price :: real
  current_value :: real
  unrealized_pnl :: real
  unrealized_pnl_pct :: real

definition enrich :: "trade_row \<Rightarrow> real \<Rightarrow> position" where
  "enrich t cp =
     (let cv = cp * quantity t;
          entry_cost = entry_price t * quantity t;
          upnl = cv - entry_cost
      in \<lparr>pos_trade = t, current_price = cp, current_value = cv, unrealized_pnl = upnl,
          unrealized_pnl_pct = (if entry_cost > 0 then upnl / entry_cost * 100 else 0)\<rparr>)"

fun enrich_all :: "world \<Rightarrow> trade_row list \<Rightarrow> position list \<times> world" where
  "enrich_all w [] = ([], w)"
| "enrich_all w (t # ts) =
     (case get_price w (symbol t) of
        (price_data, w1) \<Rightarrow>
          (let cp = (case price_data of Some pd \<Rightarrow> pd_price pd | None \<Rightarrow> price t)
           in case enrich_all w1 ts of (ps, w2) \<Rightarrow> (enrich t cp # ps, w2)))"

definition calculate_equity :: "world \<Rightarrow> (exn + real \<times> real \<times> position list) \<times> world" where
  "calculate_equity w =
     (case get_usdt_balance w of
        Inl e \<Rightarrow> (Inl e, w)
      | Inr usdt_balance \<Rightarrow>
          (case enrich_all w (get_open_trades w) of
             (enriched, w1) \<Rightarrow>
               (let crypto_value = sum_list (map current_value enriched)
                in (Inr (usdt_balance + crypto_value, usdt_balance, enriched), w1))))"

fun fee_of_fills :: "world \<Rightarrow> fill list \<Rightarrow> real \<Rightarrow> real \<times> world" where
  "fee_of_fills w [] total_fee = (total_fee, w)"
| "fee_of_fills w (f # fs) total_fee =
     (let fee = commission f; fee_asset = commissionAsset f
      in if fee_asset = ''USDT'' then fee_of_fills w fs (total_fee + fee)
         else if fee_asset = ''BNB''
         then (case get_price w ''BNBUSDT'' of
                 (Some bnb_price, w1) \<Rightarrow> fee_of_fills w1 fs (total_fee + fee * pd_price bnb_price)
               | (None, w1) \<Rightarrow> fee_of_fills w1 fs total_fee)
         else (case get_price w (fee_asset @ ''USDT'') of
                 (Some asset_price, w1) \<Rightarrow>
                   fee_of_fills w1 fs (total_fee + fee * pd_price asset_price)
               | (None, w1) \<Rightarrow> fee_of_fills w1 fs total_fee))"

definition calculate_order_fee :: "world \<Rightarrow> order \<Rightarrow> real \<times> world" where
  "calculate_order_fee w ord = fee_of_fills w (fills ord) 0"

definition write_lock :: "world \<Rightarrow> string \<Rightarrow> bool \<times> world" where
  "write_lock w s =
     (if lock_write_ok w then (True, w\<lparr>locks := (locks w)(s \<mapsto> Marker (pid w) (now w))\<rparr>)
      else (False, w))"

definition unlink_lock :: "world \<Rightarrow> string \<Rightarrow> world" where
  "unlink_lock w s = w\<lparr>locks := (locks w)(s := None)\<rparr>"

definition acquire_lock :: "world \<Rightarrow> string \<Rightarrow> bool \<times> world" where
  "acquire_lock w s =
     (case locks w s of
        None \<Rightarrow> write_lock w s
      | Some (Marker p lock_time) \<Rightarrow>
          (if now w - lock_time > 300 then write_lock (unlink_lock w s) s else (False, w))
      | Some Wrong_parts \<Rightarrow> write_lock w s
      | Some Bad_time \<Rightarrow> write_lock (unlink_lock w s) s
      | Some Unreadable \<Rightarrow> write_lock (unlink_lock w s) s)"

definition release_lock :: "world \<Rightarrow> string \<Rightarrow> world" where
  "release_lock w s = unlink_lock w s"

subsection \<open>buy\<close>

record params =
  alloc :: real
  sl_pct :: real
  ts_pct :: real
  risk :: real
  min_trade :: real
  cash_buffer :: real
  max_exposure :: real
  max_cap :: real

text \<open>The block \<^verbatim>\<open># Resolve config\<close>: \<^verbatim>\<open>allocation or ...\<close> tests truthiness, the two
  percents test \<^verbatim>\<open>is not None\<close>.\<close>

definition resolve_config ::
  "world \<Rightarrow> real option \<Rightarrow> real option \<Rightarrow> real option \<Rightarrow> exn + params" where
  "resolve_config w allocation stop_loss_pct trailing_stop_pct' =
     then_do (if truthy allocation then Inr (the allocation)
              else get_effective_config w ''default_allocation'') (\<lambda>a.
     then_do (case stop_loss_pct of Some v \<Rightarrow> Inr v
              | None \<Rightarrow> get_effective_config w ''default_stop_loss_pct'') (\<lambda>sl.
     then_do (case trailing_stop_pct' of Some v \<Rightarrow> Inr v
              | None \<Rightarrow> get_effective_config w ''default_trailing_stop_pct'') (\<lambda>ts.
     then_do (get_effective_config w ''risk_per_trade'') (\<lambda>r.
     then_do (get_effective_config w ''min_trade_usdt'') (\<lambda>mt.
     then_do (get_effective_config w ''cash_buffer'') (\<lambda>cb.
     then_do (get_effective_config w ''max_portfolio_exposure'') (\<lambda>me.
     then_do (get_effective_config w ''max_capital_at_risk'') (\<lambda>mc.
       Inr \<lparr>alloc = a, sl_pct = sl, ts_pct = ts, risk = r, min_trade = mt,
            cash_buffer = cb, max_exposure = me, max_cap = mc\<rparr>))))))))"

text \<open>The end of \<^verbatim>\<open>buy\<close>: \<^verbatim>\<open>try: save_trade(trade_record)\<close>, on any exception
  \<^verbatim>\<open>add_to_recovery_queue(trade_record, "save_trade_failed_after_buy")\<close>, then the success
  dict. An exception of the handler itself leaves \<^verbatim>\<open>buy\<close>.\<close>

definition persist_trade :: "world \<Rightarrow> trade_record \<Rightarrow> (exn + buy_result) \<times> world" where
  "persist_trade w trade_record =
     (case save_trade w trade_record of
        (Inr n, w1) \<Rightarrow> (Inr (Bought trade_record), w1)
      | (Inl e, w1) \<Rightarrow>
          (case add_to_recovery_queue w1 (Full_record trade_record)
                  ''save_trade_failed_after_buy'' of
             (Inr n, w2) \<Rightarrow> (Inr (Bought trade_record), w2)
           | (Inl e2, w2) \<Rightarrow> (Inl e2, w2)))"

text \<open>From \<^verbatim>\<open># Live order\<close> to the end. \<open>atr_multiplier\<close> is read only when the type is ATR,
  where the source has bound it.\<close>

definition buy_live ::
  "world \<Rightarrow> string \<Rightarrow> params \<Rightarrow> string option \<Rightarrow> real \<Rightarrow> string \<Rightarrow> real option \<Rightarrow> real
     \<Rightarrow> (exn + buy_result) \<times> world" where
  "buy_live w s p entry_type' quantity' stop_loss_type atr_value atr_multiplier =
     (case execute_order w s ''BUY'' quantity' of
        (Inl e, w1) \<Rightarrow> (Inr (Buy_refused (Order_failed e)), w1)
      | (Inr ord, w1) \<Rightarrow>
          (let executed_qty = executedQty ord; cumulative_quote = cummulativeQuoteQty ord
           in if executed_qty \<le> 0 then (Inr (Buy_refused Order_filled_0_quantity), w1)
              else (case calculate_order_fee w1 ord of
                      (entry_fee, w2) \<Rightarrow>
                (let entry_price = cumulative_quote / executed_qty;
                     stop_loss_price =
                       (if stop_loss_type = ''ATR'' \<and> atr_value \<noteq> None
                        then entry_price - (the atr_value * atr_multiplier)
                        else entry_price * (1 - sl_pct p));
                     trailing_stop_price =
                       (if ts_pct p > 0 then Some (entry_price * (1 - ts_pct p)) else None);
                     trade_record =
                       \<lparr>tr_trade_id =
                          (case orderId ord of
                             Some i \<Rightarrow> i
                           | None \<Rightarrow> ''UNKNOWN_'' @ str_int (py_int (now w2 * 1000))),
                        tr_symbol = s, tr_side = ''BUY'', tr_direction = ''LONG'',
                        tr_quantity = executed_qty, tr_price = entry_price,
                        tr_entry_price = entry_price, tr_total_value = cumulative_quote,
                        tr_fee_usdt_value = entry_fee, tr_stop_loss = Some stop_loss_price,
                        tr_trailing_stop_price = trailing_stop_price,
                        tr_highest_price = Some entry_price,
                        tr_trailing_stop_pct = Some (ts_pct p), tr_entry_type = entry_type',
                        tr_atr = atr_value, tr_is_open = True,
                        tr_timestamp = py_int (now w2 * 1000)\<rparr>
                 in persist_trade w2 trade_record))))"

text \<open>From \<^verbatim>\<open># Get current price\<close> to the dry-run return.\<close>

definition buy_priced ::
  "world \<Rightarrow> string \<Rightarrow> params \<Rightarrow> string option \<Rightarrow> bool \<Rightarrow> real \<Rightarrow> (exn + buy_result) \<times> world"
  where
  "buy_priced w s p entry_type' dry_run trade_amount =
     (case get_price w s of
        (None, w1) \<Rightarrow> (Inr (Buy_refused (Cannot_fetch_price s)), w1)
      | (Some price_data, w1) \<Rightarrow>
          (let current_price = pd_price price_data
           in if current_price = 0 then (Inl ZeroDivisionError, w1)
              else
          (let quantity = trade_amount / current_price;
               stored_type = get_config_value w1 ''stop_loss_type'';
               stop_loss_type =
                 upper (if truthy_str stored_type then the stored_type else Config_stop_loss_type)
           in case (if stop_loss_type = ''ATR''
                    then get_effective_config w1 ''stop_loss_atr_multiplier'' else Inr 0) of
                Inl e \<Rightarrow> (Inl e, w1)
              | Inr atr_multiplier \<Rightarrow>
          (let atr_value = (if stop_loss_type = ''ATR'' then atr_of w1 s else None);
               stop_loss_price =
                 (if stop_loss_type = ''ATR''
                  then (case atr_value of
                          Some a \<Rightarrow> current_price - (a * atr_multiplier)
                        | None \<Rightarrow> current_price * (1 - sl_pct p))
                  else current_price * (1 - sl_pct p));
               trailing_stop_price =
                 (if ts_pct p > 0 then Some (current_price * (1 - ts_pct p)) else None)
           in if dry_run
              then (case step_size w1 s quantity of
                      Inl e \<Rightarrow> (Inl e, w1)
                    | Inr q \<Rightarrow>
                        (Inr (Plan
                           \<lparr>pl_symbol = s, pl_side = ''BUY'', pl_quantity = q,
                            pl_price = current_price, pl_entry_price = current_price,
                            pl_total_value = trade_amount,
                            pl_fee_usdt_value = trade_amount * 0.001,
                            pl_stop_loss = stop_loss_price,
                            pl_trailing_stop_price = trailing_stop_price,
                            pl_trailing_stop_pct = ts_pct p, pl_highest_price = current_price,
                            pl_entry_type = entry_type', pl_allocation_used = alloc p,
                            pl_atr = atr_value, pl_stop_loss_type = stop_loss_type\<rparr>), w1))
              else buy_live w1 s p entry_type' quantity stop_loss_type atr_value
                     atr_multiplier))))"

text \<open>From \<^verbatim>\<open># Get equity and exposure\<close> to the minimum-trade check.\<close>

definition buy_sized ::
  "world \<Rightarrow> string \<Rightarrow> params \<Rightarrow> string option \<Rightarrow> bool \<Rightarrow> (exn + buy_result) \<times> world" where
  "buy_sized w s p entry_type' dry_run =
     (case calculate_equity w of
        (Inl (RuntimeError m), w1) \<Rightarrow> (Inr (Buy_refused (Cannot_fetch_account m)), w1)
      | (Inl e, w1) \<Rightarrow> (Inl e, w1)
      | (Inr (total_equity, usdt_balance, positions), w1) \<Rightarrow>
          (if total_equity \<le> 0 then (Inr (Buy_refused No_equity_available), w1)
           else
          (let crypto_value = sum_list (map current_value positions);
               current_exposure = (if total_equity > 0 then crypto_value / total_equity else 0);
               remaining_exposure = max 0 (max_exposure p - current_exposure)
           in if remaining_exposure \<le> 0
              then (Inr (Buy_refused
                      (Portfolio_exposure_at_max current_exposure (max_exposure p))), w1)
              else
          (let target = min (alloc p * total_equity) (remaining_exposure * total_equity);
               amount1 = min (target * risk p) (max_cap p);
               trade_amount =
                 (if amount1 > usdt_balance then usdt_balance * (1 - cash_buffer p)
                  else amount1)
           in if trade_amount < min_trade p
              then (Inr (Buy_refused
                      (Trade_amount_below_minimum trade_amount (min_trade p))), w1)
              else buy_priced w1 s p entry_type' dry_run trade_amount))))"

definition buy ::
  "world \<Rightarrow> string \<Rightarrow> real option \<Rightarrow> real option \<Rightarrow> real option \<Rightarrow> string option \<Rightarrow> bool
     \<Rightarrow> (exn + buy_result) \<times> world" where
  "buy w s allocation stop_loss_pct trailing_stop_pct' entry_type' dry_run =
     (if get_config_value w ''trading_halted'' = Some ''1''
      then (Inr (Buy_refused Trading_is_halted), w)
      else (case get_open_trade_by_symbol w s of
              Some existing \<Rightarrow> (Inr (Buy_refused (Already_have_an_open_position s)), w)
            | None \<Rightarrow>
                (case resolve_config w allocation stop_loss_pct trailing_stop_pct' of
                   Inl e \<Rightarrow> (Inl e, w)
                 | Inr p \<Rightarrow> buy_sized w s p entry_type' dry_run)))"

subsection \<open>close_position and sell\<close>

definition reason_or_manual :: "string option \<Rightarrow> string" where
  "reason_or_manual r = (if truthy_str r then the r else ''manual_close'')"

text \<open>The end of a live close: \<^verbatim>\<open>try: update_trade(trade_id, updates)\<close>, on any exception
  \<^verbatim>\<open>add_to_recovery_queue({"trade_id": ..., "updates": updates},
  "update_trade_failed_after_sell")\<close>, then the success dict.\<close>

definition persist_close ::
  "world \<Rightarrow> string \<Rightarrow> upd list \<Rightarrow> close_report \<Rightarrow> (exn + close_result) \<times> world" where
  "persist_close w tid updates report =
     (case update_trade w tid updates of
        (Inr u, w1) \<Rightarrow> (Inr (Closed report), w1)
      | (Inl e, w1) \<Rightarrow>
          (case add_to_recovery_queue w1 (Partial_update tid updates)
                  ''update_trade_failed_after_sell'' of
             (Inr n, w2) \<Rightarrow> (Inr (Closed report), w2)
           | (Inl e2, w2) \<Rightarrow> (Inl e2, w2)))"

text \<open>The body of the \<^verbatim>\<open>try\<close> block of a live close, entered with the lock held.\<close>

definition close_locked ::
  "world \<Rightarrow> trade_row \<Rightarrow> string option \<Rightarrow> (exn + close_result) \<times> world" where
  "close_locked w trade reason' =
     (let s = symbol trade; qty = quantity trade; entry = entry_price trade
      in case execute_order w s ''SELL'' qty of
           (Inl e, w1) \<Rightarrow> (Inr (Close_refused (Sell_order_failed e)), w1)
         | (Inr ord, w1) \<Rightarrow>
             (let executed_qty = executedQty ord; cumulative_quote = cummulativeQuoteQty ord
              in if executed_qty \<le> 0 then (Inr (Close_refused Sell_order_filled_0_quantity), w1)
                 else (case calculate_order_fee w1 ord of
                         (exit_fee, w2) \<Rightarrow>
                   (let exit_price' = cumulative_quote / executed_qty;
                        total_fees = fee_usdt_value trade + exit_fee;
                        gross_pnl = (exit_price' * executed_qty) - (entry * qty);
                        pnl_pct = (if entry * qty > 0 then gross_pnl / (entry * qty) * 100 else 0);
                        exit_time' = py_int (now w2 * 1000);
                        holding = exit_time' - timestamp trade;
                        updates =
                          [Set_is_open False, Set_exit_price exit_price', Set_exit_time exit_time',
                           Set_pnl gross_pnl, Set_pnl_percent pnl_pct,
                           Set_fee_usdt_value total_fees,
                           Set_exit_reason (reason_or_manual reason'),
                           Set_holding_period holding];
                        report =
                          \<lparr>cr_trade_id = trade_id trade, cr_symbol = s, cr_entry_price = entry,
                           cr_exit_price = exit_price', cr_quantity = executed_qty,
                           cr_pnl = gross_pnl, cr_pnl_percent = pnl_pct,
                           cr_fee_usdt_value = total_fees, cr_holding_period = Some holding,
                           cr_reason = reason_or_manual reason'\<rparr>
                    in persist_close w2 (trade_id trade) updates report))))"

definition close_position ::
  "world \<Rightarrow> trade_row \<Rightarrow> string option \<Rightarrow> bool \<Rightarrow> (exn + close_result) \<times> world" where
  "close_position w trade reason' dry_run =
     (let s = symbol trade; qty = quantity trade; entry = entry_price trade
      in case get_price w s of
           (None, w1) \<Rightarrow> (Inr (Close_refused (Cannot_fetch_price s)), w1)
         | (Some price_data, w1) \<Rightarrow>
             (let cur = pd_price price_data;
                  gross_pnl = (cur * qty) - (entry * qty);
                  pnl_pct = (if entry * qty > 0 then gross_pnl / (entry * qty) * 100 else 0)
              in if dry_run
                 then (Inr (Preview
                         \<lparr>cr_trade_id = trade_id trade, cr_symbol = s, cr_entry_price = entry,
                          cr_exit_price = cur, cr_quantity = qty, cr_pnl = gross_pnl,
                          cr_pnl_percent = pnl_pct,
                          cr_fee_usdt_value = fee_usdt_value trade + (cur * qty) * 0.001,
                          cr_holding_period = None,
                          cr_reason = reason_or_manual reason'\<rparr>), w1)
                 else (case acquire_lock w1 s of
                         (False, w2) \<Rightarrow> (Inr (Close_refused (Cannot_acquire_lock s)), w2)
                       | (True, w2) \<Rightarrow>
                           (case close_locked w2 trade reason' of
                              (res, w3) \<Rightarrow> (res, release_lock w3 s)))))"

definition sell :: "world \<Rightarrow> string \<Rightarrow> string option \<Rightarrow> bool \<Rightarrow> (exn + close_result) \<times> world"
  where
  "sell w s reason' dry_run =
     (case get_open_trade_by_symbol w s of
        None \<Rightarrow> (Inr (Close_refused (No_open_position_found s)), w)
      | Some trade \<Rightarrow> close_position w trade reason' dry_run)"

section \<open>Risk management (risk.py)\<close>

record detail =
  d_symbol :: string
  d_current_price :: real
  d_entry_price :: real
  d_closed :: bool
  d_reason :: "string option"
  d_trigger_price :: "real option"
  d_highest_price_updated :: "real option"
  d_trailing_stop_updated :: "real option"

definition close_triggered ::
  "world \<Rightarrow> trade_row \<Rightarrow> string \<Rightarrow> (exn + close_result) \<times> world" where
  "close_triggered w trade r = close_position w trade (Some r) False"

text \<open>The high-water mark the price is compared with:
  \<^verbatim>\<open>trade.get("highest_price") or entry_price\<close>.\<close>

definition effective_high :: "trade_row \<Rightarrow> real" where
  "effective_high t = (if truthy (highest_price t) then the (highest_price t) else entry_price t)"

text \<open>The trailing-stop check at the end of \<^verbatim>\<open>_check_single_position\<close>, after the ratchet.\<close>

definition check_trailing ::
  "world \<Rightarrow> trade_row \<Rightarrow> real \<Rightarrow> detail \<Rightarrow> (exn + detail) \<times> world" where
  "check_trailing w trade cur d =
     (let trailing_stop =
            (if truthy (d_trailing_stop_updated d) then d_trailing_stop_updated d
             else trailing_stop_price trade)
      in if truthy trailing_stop \<and> cur \<le> the trailing_stop
         then (case close_triggered w trade ''TRAILING_STOP'' of
                 (Inl e, w1) \<Rightarrow> (Inl e, w1)
               | (Inr r, w1) \<Rightarrow>
                   (Inr (d\<lparr>d_reason := Some ''TRAILING_STOP'', d_trigger_price := trailing_stop,
                           d_closed := True\<rparr>), w1))
         else (Inr d, w))"

definition check_single_position ::
  "world \<Rightarrow> trade_row \<Rightarrow> bool \<Rightarrow> (exn + detail) \<times> world" where
  "check_single_position w trade enable_trailing =
     (let s = symbol trade; entry = entry_price trade
      in case get_price w s of
           (None, w1) \<Rightarrow> (Inl (RuntimeError (''Cannot fetch price for '' @ s)), w1)
         | (Some price_data, w1) \<Rightarrow>
             (let cur = pd_price price_data;
                  d = \<lparr>d_symbol = s, d_current_price = cur, d_entry_price = entry,
                       d_closed = False, d_reason = None, d_trigger_price = None,
                       d_highest_price_updated = None, d_trailing_stop_updated = None\<rparr>
              in if truthy (stop_loss trade) \<and> cur \<le> the (stop_loss trade)
                 then (case close_triggered w1 trade ''STOP_LOSS'' of
                         (Inl e, w2) \<Rightarrow> (Inl e, w2)
                       | (Inr r, w2) \<Rightarrow>
                           (Inr (d\<lparr>d_reason := Some ''STOP_LOSS'',
                                   d_trigger_price := stop_loss trade, d_closed := True\<rparr>), w2))
                 else if enable_trailing \<and> truthy (trailing_stop_pct trade)
                         \<and> the (trailing_stop_pct trade) > 0
                 then (let highest = effective_high trade;
                           trailing_pct = the (trailing_stop_pct trade)
                       in if cur > highest
                          then (let new_trailing = cur * (1 - trailing_pct)
                                in case update_trade w1 (trade_id trade)
                                          [Set_highest_price cur,
                                           Set_trailing_stop_price new_trailing] of
                                     (Inl e, w2) \<Rightarrow> (Inl e, w2)
                                   | (Inr u, w2) \<Rightarrow>
                                       check_trailing w2 trade cur
                                         (d\<lparr>d_highest_price_updated := Some cur,
                                            d_trailing_stop_updated := Some new_trailing\<rparr>))
                          else check_trailing w1 trade cur d)
                 else (Inr d, w1)))"

datatype detail_entry =
    Checked detail
  | Errored string exn

record exit_results =
  checked :: nat
  closed :: nat
  errors :: nat
  details :: "detail_entry list"

fun check_all :: "world \<Rightarrow> bool \<Rightarrow> trade_row list \<Rightarrow> exit_results \<Rightarrow> exit_results \<times> world" where
  "check_all w enable_trailing [] results = (results, w)"
| "check_all w enable_trailing (trade # rest) results =
     (case check_single_position w trade enable_trailing of
        (Inr d, w1) \<Rightarrow>
          check_all w1 enable_trailing rest
            (results\<lparr>checked := checked results + 1,
                     details := details results @ [Checked d],
                     closed := (if d_closed d then closed results + 1 else closed results)\<rparr>)
      | (Inl e, w1) \<Rightarrow>
          check_all w1 enable_trailing rest
            (results\<lparr>errors := errors results + 1,
                     details := details results @ [Errored (symbol trade) e]\<rparr>))"

definition trailing_enabled :: "world \<Rightarrow> bool" where
  "trailing_enabled w =
     (case get_config_value w ''enable_trailing_stops'' of
        None \<Rightarrow> Config_enable_trailing_stops
      | Some v \<Rightarrow> lower v \<in> {''1'', ''true'', ''yes''})"

definition check_exit_conditions :: "world \<Rightarrow> string option \<Rightarrow> exit_results \<times> world" where
  "check_exit_conditions w s =
     (let open_trades =
            (if truthy_str s then filter (\<lambda>t. symbol t = the s) (get_open_trades w)
             else get_open_trades w)
      in check_all w (trailing_enabled w) open_trades
           \<lparr>checked = 0, closed = 0, errors = 0, details = []\<rparr>)"

definition halt :: "world \<Rightarrow> (exn + unit) \<times> world" where
  "halt w = set_config_value w ''trading_halted'' ''1''"

definition resume :: "world \<Rightarrow> (exn + unit) \<times> world" where
  "resume w = set_config_value w ''trading_halted'' ''0''"

section \<open>Reconciliation (reconciliation.py)\<close>

definition extract_asset_from_symbol :: "string \<Rightarrow> string" where
  "extract_asset_from_symbol s =
     (if 4 \<le> length s \<and> drop (length s - 4) s = ''USDT'' then take (length s - 4) s else s)"

text \<open>\<^verbatim>\<open>balances.get(asset, 0.0)\<close> on the dict \<^verbatim>\<open>{asset: total}\<close>, a list of pairs with
  distinct keys in insertion order.\<close>

definition balance_of :: "(string \<times> real) list \<Rightarrow> string \<Rightarrow> real" where
  "balance_of bs a = (case map_of bs a of None \<Rightarrow> 0 | Some v \<Rightarrow> v)"

record zombie =
  z_trade_id :: string
  z_symbol :: string
  z_db_quantity :: real
  z_exchange_balance :: real

record mismatch =
  m_trade_id :: string
  m_symbol :: string
  m_db_quantity :: real
  m_exchange_balance :: real
  m_difference :: real
  m_difference_pct :: real

text \<open>
  The two loops run over rows of the ledger: \<^verbatim>\<open>symbol\<close>, \<^verbatim>\<open>quantity\<close> and \<^verbatim>\<open>trade_id\<close> are
  there and are not null, so the \<^verbatim>\<open>except\<close> branches are not entered.
\<close>

fun detect_zombies :: "trade_row list \<Rightarrow> (string \<times> real) list \<Rightarrow> zombie list" where
  "detect_zombies [] bs = []"
| "detect_zombies (trade # rest) bs =
     (let a = extract_asset_from_symbol (symbol trade);
          exchange_bal = balance_of bs a;
          db_qty = quantity trade
      in if exchange_bal < db_qty * 0.01
         then \<lparr>z_trade_id = trade_id trade, z_symbol = symbol trade, z_db_quantity = db_qty,
               z_exchange_balance = exchange_bal\<rparr> # detect_zombies rest bs
         else detect_zombies rest bs)"

fun detect_mismatches :: "trade_row list \<Rightarrow> (string \<times> real) list \<Rightarrow> mismatch list" where
  "detect_mismatches [] bs = []"
| "detect_mismatches (trade # rest) bs =
     (let a = extract_asset_from_symbol (symbol trade);
          exchange_bal = balance_of bs a;
          db_qty = quantity trade
      in if exchange_bal \<le> 0 \<or> db_qty \<le> 0 then detect_mismatches rest bs
         else (let diff = exchange_bal - db_qty;
                   diff_pct = \<bar>diff\<bar> / db_qty * 100
               in if diff_pct > 1.0
                  then \<lparr>m_trade_id = trade_id trade, m_symbol = symbol trade,
                        m_db_quantity = db_qty, m_exchange_balance = exchange_bal,
                        m_difference = diff, m_difference_pct = diff_pct\<rparr>
                         # detect_mismatches rest bs
                  else detect_mismatches rest bs))"

text \<open>\<^verbatim>\<open>balances[b["asset"]] = b["total"]\<close> on the dict.\<close>

fun dict_set :: "(string \<times> real) list \<Rightarrow> string \<Rightarrow> real \<Rightarrow> (string \<times> real) list" where
  "dict_set [] k v = [(k, v)]"
| "dict_set ((k', v') # kvs) k v =
     (if k' = k then (k, v) # kvs else (k', v') # dict_set kvs k v)"

definition balances_dict :: "balance list \<Rightarrow> (string \<times> real) list" where
  "balances_dict bl = fold (\<lambda>b d. dict_set d (asset b) (total b)) bl []"




record orphan =
  o_asset :: string
  o_symbol :: string
  o_exchange_balance :: real
  o_estimated_value_usdt :: real

definition detect_orphans ::
  "trade_row list \<Rightarrow> (string \<times> real) list \<Rightarrow> (string \<times> real) list \<Rightarrow> orphan list" where
  "detect_orphans open_trades bs prices =
     (let tracked_assets = set (map (\<lambda>t. extract_asset_from_symbol (symbol t)) open_trades);
          skip_assets = {''USDT'', ''BNB''}
      in concat (map (\<lambda>(a, bal).
           if a \<in> skip_assets \<or> bal \<le> 0 then []
           else if a \<in> tracked_assets then []
           else (let sym = a @ ''USDT'';
                     p = balance_of prices sym;
                     value_usdt = bal * p
                 in if value_usdt < 1.0 \<and> p > 0 then []
                    else [\<lparr>o_asset = a, o_symbol = sym, o_exchange_balance = bal,
                           o_estimated_value_usdt = value_usdt\<rparr>])) bs))"

text \<open>The loop of \<^verbatim>\<open>reconcile\<close> that prices the assets held.\<close>

fun fetch_prices ::
  "world \<Rightarrow> string list \<Rightarrow> (string \<times> real) list \<Rightarrow> (string \<times> real) list \<times> world" where
  "fetch_prices w [] prices = (prices, w)"
| "fetch_prices w (a # as) prices =
     (case get_price w (a @ ''USDT'') of
        (Some result, w1) \<Rightarrow> fetch_prices w1 as (dict_set prices (a @ ''USDT'') (pd_price result))
      | (None, w1) \<Rightarrow> fetch_prices w1 as prices)"

record report =
  rp_success :: bool
  rp_error :: "string option"
  rp_zombies :: "zombie list"
  rp_orphans :: "orphan list"
  rp_mismatches :: "mismatch list"
  rp_total_issues :: nat
  rp_open_trades_checked :: nat
  rp_exchange_assets_checked :: nat

definition reconcile :: "world \<Rightarrow> report \<times> world" where
  "reconcile w =
     (let account = the_account w
      in if truthy_str (acct_error account)
         then (\<lparr>rp_success = False,
                 rp_error = Some (''Cannot fetch account: '' @ the (acct_error account)),
                 rp_zombies = [], rp_orphans = [], rp_mismatches = [], rp_total_issues = 0,
                 rp_open_trades_checked = 0, rp_exchange_assets_checked = 0\<rparr>, w)
         else (let bs = balances_dict (balances account);
                   open_trades = get_open_trades w;
                   price_assets =
                     map fst (filter (\<lambda>(a, bal). a \<notin> {''USDT'', ''BNB''} \<and> bal > 0) bs)
               in case fetch_prices w price_assets [] of
                    (prices, w1) \<Rightarrow>
                      (let zs = detect_zombies open_trades bs;
                           os = detect_orphans open_trades bs prices;
                           ms = detect_mismatches open_trades bs
                       in (\<lparr>rp_success = True, rp_error = None, rp_zombies = zs,
                             rp_orphans = os, rp_mismatches = ms,
                             rp_total_issues = length zs + length os + length ms,
                             rp_open_trades_checked = length open_trades,
                             rp_exchange_assets_checked = length price_assets\<rparr>, w1))))"

section \<open>Observations on a world\<close>


text \<open>The exchange balance that reconciliation pairs with an open trade, and the entries
  it reports for the trade.\<close>

definition exchange_bal :: "(string \<times> real) list \<Rightarrow> trade_row \<Rightarrow> real" where
  "exchange_bal bs t = balance_of bs (extract_asset_from_symbol (symbol t))"

definition zombie_of :: "(string \<times> real) list \<Rightarrow> trade_row \<Rightarrow> zombie" where
  "zombie_of bs t =
     \<lparr>z_trade_id = trade_id t, z_symbol = symbol t, z_db_quantity = quantity t,
      z_exchange_balance = exchange_bal bs t\<rparr>"

definition mismatch_of :: "(string \<times> real) list \<Rightarrow> trade_row \<Rightarrow> mismatch" where
  "mismatch_of bs t =
     \<lparr>m_trade_id = trade_id t, m_symbol = symbol t, m_db_quantity = quantity t,
      m_exchange_balance = exchange_bal bs t,
      m_difference = exchange_bal bs t - quantity t,
      m_difference_pct = \<bar>exchange_bal bs t - quantity t\<bar> / quantity t * 100\<rparr>"


text \<open>
  The columns of a row that the trailing stop lives in, and the relation between them
  that \<^verbatim>\<open>buy\<close> sets up for a trailing percent \<open>pct\<close>: a stop is stored, it is at least
  \<open>ts\<close>, and it is not above \<open>high * (1 - pct)\<close> for the high-water mark \<open>high\<close>.
\<close>

definition ratchet_state ::
  "trade_row \<Rightarrow> string \<times> real \<times> real option \<times> real option \<times> real option" where
  "ratchet_state r =
     (trade_id r, entry_price r, highest_price r, trailing_stop_price r, trailing_stop_pct r)"

definition ratchets :: "world \<Rightarrow> (string \<times> real \<times> real option \<times> real option \<times> real option) list"
  where
  "ratchets w = map ratchet_state (trades w)"

definition trailing_ok :: "real \<Rightarrow> real \<Rightarrow> trade_row \<Rightarrow> bool" where
  "trailing_ok pct ts t =
     (trailing_stop_pct t = Some pct \<and> 0 < effective_high t
      \<and> (case trailing_stop_price t of
            None \<Rightarrow> False
          | Some ts' \<Rightarrow> ts \<le> ts' \<and> ts' \<le> effective_high t * (1 - pct)))"

section \<open>Example worlds\<close>

text \<open>A quiet world: empty ledger, no faults, a venue that cannot be reached.\<close>

definition world0 :: world where
  "world0 =
     \<lparr>trades = [], next_row_id = 1, config = Map.empty, recovery_queue = [], next_item_id = 1,
      db_faults = [], locks = Map.empty, lock_write_ok = True, cache_files = Map.empty,
      now = 1000000, pid = 4242, float_of_str = (\<lambda>s. None), has_credentials = True,
      ticker = (\<lambda>s. Inl (RuntimeError ''Binance request failed'')),
      the_account = \<lparr>balances = [], acct_error = None\<rparr>, atr_of = (\<lambda>s. None),
      exchange_info = (\<lambda>s. Inr None),
      order_reply = (\<lambda>s sd q. Inl (RuntimeError ''Binance request failed'')),
      api_log = []\<rparr>"

text \<open>A price cached 60 seconds ago (the TTL is 15) while the venue answers 51000.\<close>

definition stale_world :: world where
  "stale_world =
     world0\<lparr>cache_files :=
              [key_path ''price_BTCUSDT'' \<mapsto>
                 Entry 999940 \<lparr>pd_symbol = ''BTCUSDT'', pd_price = 50000, pd_stale = False\<rparr>],
            ticker := (\<lambda>s. Inr 51000)\<rparr>"

text \<open>A venue whose step size is 0.001, and one that reports a step size of 0.\<close>

definition milli_info :: symbol_info where
  "milli_info = \<lparr>si_step_size = 1 / 10 ^ 3, si_min_notional = 10, si_min_qty = 0.001\<rparr>"



text \<open>
  A venue that trades every symbol at 100 with step size 0.001 and fills every order in
  full, and an account with 100 USDT free.
\<close>

definition market_world :: world where
  "market_world =
     world0\<lparr>the_account :=
              \<lparr>balances = [\<lparr>asset = ''USDT'', free = 100, locked = 0, total = 100\<rparr>],
               acct_error = None\<rparr>,
            ticker := (\<lambda>s. Inr 100),
            exchange_info := (\<lambda>s. Inr (Some milli_info)),
            order_reply :=
              (\<lambda>s sd q. Inr \<lparr>executedQty = q, cummulativeQuoteQty = q * 100,
                              orderId = Some ''1001'', fills = []\<rparr>)\<rparr>"

text \<open>An open position of 2 BTC bought at 100, as \<^verbatim>\<open>buy\<close> stores it with the defaults.\<close>

definition btc_row :: trade_row where
  "btc_row =
     \<lparr>row_id = 1, trade_id = ''1001'', symbol = ''BTCUSDT'', side = ''BUY'',
      direction = ''LONG'', quantity = 2, price = 100, entry_price = 100, exit_price = None,
      total_value = 200, pnl = Some 0, pnl_percent = Some 0, fee_usdt_value = 0,
      stop_loss = Some 95, trailing_stop_price = Some 97, highest_price = Some 100,
      trailing_stop_pct = Some 0.03, entry_type = None, exit_reason = None,
      signal_strength = None, atr = None, is_open = True, holding_period = None,
      timestamp = 999000000, exit_time = None\<rparr>"

text \<open>The position is held and the market has risen to 110.\<close>

definition holding_world :: world where
  "holding_world =
     market_world\<lparr>trades := [btc_row], next_row_id := 2,
                  ticker := (\<lambda>s. Inr 110),
                  order_reply :=
                    (\<lambda>s sd q. Inr \<lparr>executedQty = q, cummulativeQuoteQty = q * 110,
                                    orderId = Some ''2002'', fills = []\<rparr>)\<rparr>"

definition halted_world :: world where
  "halted_world = holding_world\<lparr>config := [''trading_halted'' \<mapsto> ''1'']\<rparr>"

text \<open>What \<^verbatim>\<open>buy\<close> resolves from the static defaults when both percents are given as 0.\<close>

definition zero_params :: params where
  "zero_params = \<lparr>alloc = 0.15, sl_pct = 0, ts_pct = 0, risk = 0.98, min_trade = 10,
      cash_buffer = 0.01, max_exposure = 0.95, max_cap = 999999\<rparr>"


text \<open>The error that \<^verbatim>\<open>execute_order\<close> raises on a quantity that quantizes to nothing.\<close>

definition too_small :: exn where
  "too_small = RuntimeError ''Quantity too small after step_size adjustment''"


text \<open>BTC at 100000 with step size 0.001: the 14.70 USDT that the defaults size buy
  0.000147 BTC, less than one step. And a position of half a step.\<close>

definition pricey_world :: world where
  "pricey_world = market_world\<lparr>ticker := (\<lambda>s. Inr 100000)\<rparr>"

definition dust_row :: trade_row where
  "dust_row = btc_row\<lparr>quantity := 0.0005\<rparr>"


text \<open>The held position with a lock marker written 100 seconds ago, and with one written
  1000 seconds ago.\<close>

definition locked_world :: world where
  "locked_world = holding_world\<lparr>locks := [''BTCUSDT'' \<mapsto> Marker 7 999900]\<rparr>"

definition stale_lock_world :: world where
  "stale_lock_world = holding_world\<lparr>locks := [''BTCUSDT'' \<mapsto> Marker 7 999000]\<rparr>"

text \<open>The same two, the first with no price to be had, the second with a lock directory
  that cannot be written.\<close>

definition locked_blind_world :: world where
  "locked_blind_world =
     locked_world\<lparr>ticker := (\<lambda>s. Inl (RuntimeError ''Binance request failed''))\<rparr>"

definition stale_lock_readonly_world :: world where
  "stale_lock_readonly_world = stale_lock_world\<lparr>lock_write_ok := False\<rparr>"

text \<open>The venue fills only 1 of the 2 BTC offered, at 110.\<close>

definition partial_fill_world :: world where
  "partial_fill_world =
     holding_world\<lparr>order_reply :=
                     (\<lambda>s sd q. Inr \<lparr>executedQty = 1, cummulativeQuoteQty = 110,
                                     orderId = Some ''2002'', fills = []\<rparr>)\<rparr>"

text \<open>The account of the held position when the exchange shows 0.005 BTC, and when it
  shows none.\<close>

definition trace_account :: account where
  "trace_account =
     \<lparr>balances = [\<lparr>asset = ''USDT'', free = 100, locked = 0, total = 100\<rparr>,
                  \<lparr>asset = ''BTC'', free = 0.005, locked = 0, total = 0.005\<rparr>],
      acct_error = None\<rparr>"

definition trace_world :: world where
  "trace_world = holding_world\<lparr>the_account := trace_account\<rparr>"







text \<open>The held position with a trailing percent of 1.5, as \<^verbatim>\<open>buy\<close> stores it when called with
  \<^verbatim>\<open>trailing_stop_pct=1.5\<close>; and with a stop-loss percent of -0.2, which puts the fixed stop
  at 120.\<close>

definition loose_row :: trade_row where
  "loose_row = btc_row\<lparr>trailing_stop_pct := Some 1.5, trailing_stop_price := Some (- 50)\<rparr>"

definition loose_world :: world where
  "loose_world = holding_world\<lparr>trades := [loose_row]\<rparr>"

definition high_stop_row :: trade_row where
  "high_stop_row = btc_row\<lparr>stop_loss := Some 120\<rparr>"

definition high_stop_world :: world where
  "high_stop_world = holding_world\<lparr>trades := [high_stop_row]\<rparr>"

text \<open>The held position while the store refuses the next write.\<close>

definition holding_flaky_world :: world where
  "holding_flaky_world = holding_world\<lparr>db_faults := [True]\<rparr>"

section \<open>Properties\<close>

subsection \<open>Price lookup and the cache\<close>

text \<open>
  C5. The claim: a cached price older than its TTL but within the 24 hour window is
  returned, tagged degraded, only after a live fetch was attempted and failed. The code
  returns it from the first cache lookup: \<^verbatim>\<open>FileCache.get\<close> with a TTL already falls back
  to the stale value, and \<^verbatim>\<open>get_price\<close> returns whatever it gets. In \<open>stale_world\<close> the
  venue would answer, yet the 60 second old price comes back tagged stale and the world,
  with its log of venue calls, is unchanged: no fetch was attempted.
\<close>

theorem get_price_stale_without_fetch:
  "get_price stale_world ''BTCUSDT''
     = (Some \<lparr>pd_symbol = ''BTCUSDT'', pd_price = 50000, pd_stale = True\<rparr>, stale_world)
   \<and> has_credentials stale_world
   \<and> ticker stale_world ''BTCUSDT'' = Inr 51000
   \<and> api_log (snd (get_price stale_world ''BTCUSDT'')) = []"
  by (simp add: get_price_def cache_get_def stale_world_def world0_def cache_ttl_price_def
      stale_cache_max_age_def)

subsection \<open>Quantization\<close>

lemma py_round_of_int: "py_round (of_int m) = m"
  by (simp add: py_round_def)

lemma log10_inverse_power: "log 10 (1 / 10 ^ k) = - real k"
proof -
  have "(1::real) / 10 ^ k = 10 powr (- real k)"
    by (simp add: powr_minus powr_realpow divide_simps)
  then have "log 10 (1 / 10 ^ k) = log 10 (10 powr (- real k))" by simp
  also have "\<dots> = - real k" by (rule log_powr_cancel) simp_all
  finally show ?thesis .
qed

lemma precision_power10: "nat (max 0 (py_round (- log 10 (1 / 10 ^ k)))) = k"
proof -
  have "- log 10 (1 / 10 ^ k) = of_int (int k)"
    by (simp add: log10_inverse_power)
  then have "py_round (- log 10 (1 / 10 ^ k)) = int k"
    by (simp only: py_round_of_int)
  then show ?thesis by simp
qed

lemma py_round_nd_exact: "py_round_nd (of_int m / 10 ^ k) k = of_int m / 10 ^ k"
  by (simp add: py_round_nd_def py_round_of_int)

lemma quantize_power10: "quantize (1 / 10 ^ k) q = of_int \<lfloor>q * 10 ^ k\<rfloor> / 10 ^ k"
proof -
  have pos: "\<not> (1 / 10 ^ k \<le> (0::real))" by (simp add: not_le)
  have "quantize (1 / 10 ^ k) q = py_round_nd (of_int \<lfloor>q / (1 / 10 ^ k)\<rfloor> * (1 / 10 ^ k)) k"
    unfolding quantize_def Let_def using pos precision_power10 by simp
  also have "\<dots> = py_round_nd (of_int \<lfloor>q * 10 ^ k\<rfloor> / 10 ^ k) k" by simp
  finally show ?thesis by (simp only: py_round_nd_exact)
qed





subsection \<open>Evaluation at concrete worlds\<close>

lemma quantize_milli: "quantize (1 / 1000) q = of_int \<lfloor>q * 1000\<rfloor> / 1000"
  using quantize_power10[of 3 q] by simp

lemmas eval_defs = buy_def buy_sized_def buy_priced_def buy_live_def persist_trade_def
  resolve_config_def
  get_effective_config_def get_config_value_def Config_default_def then_do_def
  get_open_trade_by_symbol_def calculate_equity_def get_usdt_balance_def truthy_str_def
  get_open_trades_def get_price_def cache_get_def cache_set_def log_call_def key_path_def
  cache_ttl_price_def stale_cache_max_age_def upper_def upper_char_def Config_stop_loss_type_def
  step_size_def get_exchange_info_def execute_order_def calculate_order_fee_def
  save_trade_def add_to_recovery_queue_def db_fault_def db_tick_def row_of_record_def
  py_int_def milli_info_def quantize_milli Let_def
  close_position_def close_locked_def persist_close_def acquire_lock_def write_lock_def unlink_lock_def
  release_lock_def update_trade_def reason_or_manual_def sell_def enrich_def

lemmas world_defs = locked_world_def stale_lock_world_def locked_blind_world_def
  stale_lock_readonly_world_def partial_fill_world_def halted_world_def holding_world_def
  pricey_world_def market_world_def world0_def btc_row_def dust_row_def too_small_def

lemmas recon_defs = reconcile_def balances_dict_def fetch_prices.simps detect_orphans_def
  extract_asset_from_symbol_def balance_of_def exchange_bal_def zombie_of_def mismatch_of_def
  trace_world_def trace_account_def


subsection \<open>The halt switch\<close>

text \<open>Nothing on the close path reads the configuration table: a close in a world and in
  the same world with another configuration differ in the configuration alone.\<close>

lemma get_price_config:
  "get_price (w\<lparr>config := c\<rparr>) s = apsnd (\<lambda>v. v\<lparr>config := c\<rparr>) (get_price w s)"
  by (simp add: get_price_def cache_get_def cache_set_def log_call_def Let_def
      split: option.splits cache_file.splits sum.splits)

lemma fee_of_fills_config:
  "fee_of_fills (w\<lparr>config := c\<rparr>) fs acc = apsnd (\<lambda>v. v\<lparr>config := c\<rparr>) (fee_of_fills w fs acc)"
proof (induction fs arbitrary: w acc)
  case Nil
  then show ?case by simp
next
  case (Cons f fs)
  show ?case
  proof (cases "commissionAsset f = ''USDT''")
    case True
    then show ?thesis using Cons.IH by simp
  next
    case False
    obtain r1 v1 where g1: "get_price w ''BNBUSDT'' = (r1, v1)" by (cases "get_price w ''BNBUSDT''")
    obtain r2 v2 where g2: "get_price w (commissionAsset f @ ''USDT'') = (r2, v2)"
      by (cases "get_price w (commissionAsset f @ ''USDT'')")
    show ?thesis using False g1 g2 Cons.IH
      by (simp add: get_price_config Let_def split: option.splits)
  qed
qed

lemma acquire_lock_config:
  "acquire_lock (w\<lparr>config := c\<rparr>) s = apsnd (\<lambda>v. v\<lparr>config := c\<rparr>) (acquire_lock w s)"
  by (simp add: acquire_lock_def write_lock_def unlink_lock_def
      split: option.splits lock_file.splits)

lemma release_lock_config:
  "release_lock (w\<lparr>config := c\<rparr>) s = (release_lock w s)\<lparr>config := c\<rparr>"
  by (simp add: release_lock_def unlink_lock_def)

lemma execute_order_config:
  "execute_order (w\<lparr>config := c\<rparr>) s sd q = apsnd (\<lambda>v. v\<lparr>config := c\<rparr>) (execute_order w s sd q)"
  by (simp add: execute_order_def step_size_def get_exchange_info_def then_do_def log_call_def
      split: sum.splits)

lemma update_trade_config:
  "update_trade (w\<lparr>config := c\<rparr>) i us = apsnd (\<lambda>v. v\<lparr>config := c\<rparr>) (update_trade w i us)"
  by (simp add: update_trade_def db_fault_def db_tick_def Let_def)

lemma add_to_recovery_queue_config:
  "add_to_recovery_queue (w\<lparr>config := c\<rparr>) d r
     = apsnd (\<lambda>v. v\<lparr>config := c\<rparr>) (add_to_recovery_queue w d r)"
  by (simp add: add_to_recovery_queue_def db_fault_def db_tick_def)

lemma close_locked_config:
  "close_locked (w\<lparr>config := c\<rparr>) t r = apsnd (\<lambda>v. v\<lparr>config := c\<rparr>) (close_locked w t r)"
proof -
  obtain o1 w1 where e: "execute_order w (symbol t) ''SELL'' (quantity t) = (o1, w1)"
    by (cases "execute_order w (symbol t) ''SELL'' (quantity t)")
  show ?thesis
  proof (cases o1)
    case (Inl x)
    then show ?thesis using e by (simp add: close_locked_def persist_close_def execute_order_config Let_def)
  next
    case (Inr ord)
    obtain fee w2 where f: "calculate_order_fee w1 ord = (fee, w2)"
      by (cases "calculate_order_fee w1 ord")
    then have f': "calculate_order_fee (w1\<lparr>config := c\<rparr>) ord = (fee, w2\<lparr>config := c\<rparr>)"
      by (simp add: calculate_order_fee_def fee_of_fills_config)
    have n: "now (w2\<lparr>config := c\<rparr>) = now w2" by simp
    show ?thesis using e Inr f f'
      apply (simp add: close_locked_def persist_close_def execute_order_config Let_def del: fee_of_fills.simps)
      apply (auto simp: update_trade_config add_to_recovery_queue_config
          split: prod.splits sum.splits)
      done
  qed
qed

lemma close_position_config:
  "close_position (w\<lparr>config := c\<rparr>) t r d = apsnd (\<lambda>v. v\<lparr>config := c\<rparr>) (close_position w t r d)"
proof -
  obtain p1 w1 where g: "get_price w (symbol t) = (p1, w1)" by (cases "get_price w (symbol t)")
  show ?thesis
  proof (cases p1)
    case None
    then show ?thesis using g by (simp add: close_position_def get_price_config Let_def)
  next
    case (Some pd)
    obtain b w2 where a: "acquire_lock w1 (symbol t) = (b, w2)" by (cases "acquire_lock w1 (symbol t)")
    obtain res w3 where cl: "close_locked w2 t r = (res, w3)" by (cases "close_locked w2 t r")
    show ?thesis using g Some a cl
      by (cases b) (simp_all add: close_position_def get_price_config acquire_lock_config
          close_locked_config release_lock_config Let_def)
  qed
qed


lemma sell_config:
  "sell (w\<lparr>config := c\<rparr>) s r d = apsnd (\<lambda>v. v\<lparr>config := c\<rparr>) (sell w s r d)"
  by (simp add: sell_def get_open_trade_by_symbol_def close_position_config split: option.splits)


text \<open>
  C2. With the halt flag set, \<^verbatim>\<open>buy\<close> returns the refusal and leaves the world as it was:
  no venue call, no ledger write. \<^verbatim>\<open>close_position\<close> and \<^verbatim>\<open>sell\<close> do what they do in the
  same world with the flag removed.
\<close>

theorem halt_blocks_buy_only:
  assumes "get_config_value w ''trading_halted'' = Some ''1''"
  shows "buy w s a sl ts et dry = (Inr (Buy_refused Trading_is_halted), w)
         \<and> close_position w t r d
             = apsnd (\<lambda>v. v\<lparr>config := config w\<rparr>)
                 (close_position (w\<lparr>config := (config w)(''trading_halted'' := None)\<rparr>) t r d)
         \<and> sell w s r d
             = apsnd (\<lambda>v. v\<lparr>config := config w\<rparr>)
                 (sell (w\<lparr>config := (config w)(''trading_halted'' := None)\<rparr>) s r d)"
proof -
  have b: "buy w s a sl ts et dry = (Inr (Buy_refused Trading_is_halted), w)"
    using assms by (simp add: buy_def)
  have "close_position (w\<lparr>config := (config w)(''trading_halted'' := None)\<rparr>\<lparr>config := config w\<rparr>) t r d
          = apsnd (\<lambda>v. v\<lparr>config := config w\<rparr>)
              (close_position (w\<lparr>config := (config w)(''trading_halted'' := None)\<rparr>) t r d)"
    by (rule close_position_config)
  then have c: "close_position w t r d
             = apsnd (\<lambda>v. v\<lparr>config := config w\<rparr>)
                 (close_position (w\<lparr>config := (config w)(''trading_halted'' := None)\<rparr>) t r d)"
    by simp
  have "sell (w\<lparr>config := (config w)(''trading_halted'' := None)\<rparr>\<lparr>config := config w\<rparr>) s r d
          = apsnd (\<lambda>v. v\<lparr>config := config w\<rparr>)
              (sell (w\<lparr>config := (config w)(''trading_halted'' := None)\<rparr>) s r d)"
    by (rule sell_config)
  then have d: "sell w s r d
             = apsnd (\<lambda>v. v\<lparr>config := config w\<rparr>)
                 (sell (w\<lparr>config := (config w)(''trading_halted'' := None)\<rparr>) s r d)"
    by simp
  from b c d show ?thesis by blast
qed

text \<open>In a halted world that holds 2 BTC, a buy is refused and changes nothing, and a live
  close of the position goes through and marks the row closed.\<close>

theorem halt_blocks_buy_only_witness:
  "buy halted_world ''ETHUSDT'' None None None None False
     = (Inr (Buy_refused Trading_is_halted), halted_world)
   \<and> fst (close_position halted_world btc_row None False)
       = Inr (Closed \<lparr>cr_trade_id = ''1001'', cr_symbol = ''BTCUSDT'', cr_entry_price = 100,
                      cr_exit_price = 110, cr_quantity = 2, cr_pnl = 20, cr_pnl_percent = 10,
                      cr_fee_usdt_value = 0, cr_holding_period = Some 1000000,
                      cr_reason = ''manual_close''\<rparr>)
   \<and> map is_open (trades (snd (close_position halted_world btc_row None False))) = [False]"
proof -
  have h: "get_config_value halted_world ''trading_halted'' = Some ''1''"
    by (simp add: get_config_value_def halted_world_def)
  have c: "fst (close_position halted_world btc_row None False)
       = Inr (Closed \<lparr>cr_trade_id = ''1001'', cr_symbol = ''BTCUSDT'', cr_entry_price = 100,
                      cr_exit_price = 110, cr_quantity = 2, cr_pnl = 20, cr_pnl_percent = 10,
                      cr_fee_usdt_value = 0, cr_holding_period = Some 1000000,
                      cr_reason = ''manual_close''\<rparr>)"
    by (simp add: eval_defs halted_world_def holding_world_def market_world_def world0_def
        btc_row_def)
  have d: "map is_open (trades (snd (close_position halted_world btc_row None False))) = [False]"
    by (simp add: eval_defs halted_world_def holding_world_def market_world_def world0_def
        btc_row_def)
  from halt_blocks_buy_only[OF h, of "''ETHUSDT''" None None None None False] c d
  show ?thesis by simp
qed

subsection \<open>Resolution of the overrides\<close>

text \<open>
  C10. An allocation override of 0.0 is falsy: \<^verbatim>\<open>buy\<close> with it is \<^verbatim>\<open>buy\<close> without an
  override, and the allocation used is the persisted override or the static default. A
  stop-loss or trailing-stop percent of 0.0 is kept.
\<close>

theorem zero_allocation_override_discarded:
  "buy w s (Some 0) sl ts et dry = buy w s None sl ts et dry
   \<and> (resolve_config w (Some 0) sl ts = Inr p
        \<longrightarrow> get_effective_config w ''default_allocation'' = Inr (alloc p))
   \<and> (resolve_config w a (Some 0) ts = Inr p \<longrightarrow> sl_pct p = 0)
   \<and> (resolve_config w a sl (Some 0) = Inr p \<longrightarrow> ts_pct p = 0)"
proof -
  have r: "resolve_config w (Some 0) sl ts = resolve_config w None sl ts"
    by (simp add: resolve_config_def)
  have 1: "buy w s (Some 0) sl ts et dry = buy w s None sl ts et dry"
    unfolding buy_def r by (rule refl)
  have 2: "resolve_config w (Some 0) sl ts = Inr p
        \<longrightarrow> get_effective_config w ''default_allocation'' = Inr (alloc p)"
    by (auto simp: resolve_config_def then_do_def split: sum.splits option.splits)
  have 3: "resolve_config w a (Some 0) ts = Inr p \<longrightarrow> sl_pct p = 0"
    by (auto simp: resolve_config_def then_do_def split: sum.splits option.splits if_splits)
  have 4: "resolve_config w a sl (Some 0) = Inr p \<longrightarrow> ts_pct p = 0"
    by (auto simp: resolve_config_def then_do_def split: sum.splits option.splits if_splits)
  from 1 2 3 4 show ?thesis by blast
qed


text \<open>With the defaults, all three overrides 0: the plan uses allocation 0.15, a stop-loss
  at the price itself and no trailing stop.\<close>

theorem zero_allocation_override_discarded_witness:
  "resolve_config market_world (Some 0) (Some 0) (Some 0) = Inr zero_params
   \<and> get_effective_config market_world ''default_allocation'' = Inr 0.15
   \<and> sl_pct zero_params = 0 \<and> ts_pct zero_params = 0
   \<and> fst (buy market_world ''BTCUSDT'' (Some 0) (Some 0) (Some 0) None True)
       = Inr (Plan \<lparr>pl_symbol = ''BTCUSDT'', pl_side = ''BUY'', pl_quantity = 0.147,
                    pl_price = 100, pl_entry_price = 100, pl_total_value = 14.7,
                    pl_fee_usdt_value = 0.0147, pl_stop_loss = 100,
                    pl_trailing_stop_price = None, pl_trailing_stop_pct = 0,
                    pl_highest_price = 100, pl_entry_type = None, pl_allocation_used = 0.15,
                    pl_atr = None, pl_stop_loss_type = ''FIXED''\<rparr>)"
proof -
  have h: "resolve_config market_world (Some 0) (Some 0) (Some 0) = Inr zero_params"
    by (simp add: eval_defs market_world_def world0_def zero_params_def)
  have b: "fst (buy market_world ''BTCUSDT'' None (Some 0) (Some 0) None True)
       = Inr (Plan \<lparr>pl_symbol = ''BTCUSDT'', pl_side = ''BUY'', pl_quantity = 0.147,
                    pl_price = 100, pl_entry_price = 100, pl_total_value = 14.7,
                    pl_fee_usdt_value = 0.0147, pl_stop_loss = 100,
                    pl_trailing_stop_price = None, pl_trailing_stop_pct = 0,
                    pl_highest_price = 100, pl_entry_type = None, pl_allocation_used = 0.15,
                    pl_atr = None, pl_stop_loss_type = ''FIXED''\<rparr>)"
    by (simp add: eval_defs market_world_def world0_def)
  from zero_allocation_override_discarded[where w = market_world and s = "''BTCUSDT''"
      and sl = "Some 0" and ts = "Some 0" and et = None and dry = True and p = zero_params
      and a = "Some 0"] h b
  show ?thesis by (simp add: zero_params_def)
qed

subsection \<open>Quantities that quantize to nothing\<close>

lemma execute_order_too_small:
  assumes "has_credentials w" and "step_size w s q = Inr fq" and "fq \<le> 0"
  shows "execute_order w s sd q = (Inl too_small, w)"
  using assms by (simp add: execute_order_def too_small_def)


text \<open>
  C6, as amended. When the quantized quantity is not positive, \<^verbatim>\<open>execute_order\<close> raises
  before any order is placed. The live part of \<^verbatim>\<open>buy\<close> and the locked part of
  \<^verbatim>\<open>close_position\<close> catch what \<^verbatim>\<open>execute_order\<close> raises and return the refusals
  \<^verbatim>\<open>Order failed\<close> and \<^verbatim>\<open>Sell order failed\<close>: their callers see no exception.
\<close>

theorem zero_quantity_is_refusal:
  assumes "has_credentials w" and "step_size w s q = Inr fq" and "fq \<le> 0"
  shows "execute_order w s sd q = (Inl too_small, w)
         \<and> buy_live w s p et q slt av am = (Inr (Buy_refused (Order_failed too_small)), w)
         \<and> (symbol t = s \<and> quantity t = q
              \<longrightarrow> close_locked w t r = (Inr (Close_refused (Sell_order_failed too_small)), w))"
  using execute_order_too_small[OF assms]
  by (simp add: buy_live_def close_locked_def persist_close_def Let_def)

theorem zero_quantity_is_refusal_witness:
  "fst (buy_live pricey_world ''BTCUSDT'' zero_params None 0.000147 ''FIXED'' None 0)
     = Inr (Buy_refused (Order_failed too_small))
   \<and> fst (close_locked pricey_world dust_row None)
     = Inr (Close_refused (Sell_order_failed too_small))"
proof -
  have c: "has_credentials pricey_world" by (simp add: pricey_world_def market_world_def world0_def)
  have s: "step_size pricey_world ''BTCUSDT'' 0.000147 = Inr 0"
    by (simp add: eval_defs pricey_world_def market_world_def world0_def)
  have s2: "step_size pricey_world ''BTCUSDT'' 0.0005 = Inr 0"
    by (simp add: eval_defs pricey_world_def market_world_def world0_def)
  from zero_quantity_is_refusal[OF c s, where t = dust_row]
       zero_quantity_is_refusal[OF c s2, where t = dust_row]
  show ?thesis by (simp add: dust_row_def btc_row_def)
qed


text \<open>
  C6 as stated fails: \<^verbatim>\<open>buy\<close> and \<^verbatim>\<open>close_position\<close> return a refusal where the claim has
  the error propagate to their caller.
\<close>

theorem zero_quantity_does_not_propagate:
  "fst (buy pricey_world ''BTCUSDT'' None None None None False)
     = Inr (Buy_refused (Order_failed too_small))
   \<and> fst (close_position (pricey_world\<lparr>trades := [dust_row]\<rparr>) dust_row None False)
     = Inr (Close_refused (Sell_order_failed too_small))"
  by (simp add: eval_defs pricey_world_def market_world_def world0_def dust_row_def btc_row_def
      too_small_def)

subsection \<open>The advisory lock of a live close\<close>











subsection \<open>Profit and loss of a close\<close>






subsection \<open>Reconciliation\<close>

text \<open>The two loops as filters: a zombie is an open trade whose exchange balance is below
  1% of its quantity; a mismatch is one with balance and quantity positive that differ by
  more than 1% of the quantity.\<close>

lemma detect_zombies_filter:
  "detect_zombies ts bs
     = map (zombie_of bs) (filter (\<lambda>t. exchange_bal bs t < quantity t / 100) ts)"
  by (induction ts) (simp_all add: zombie_of_def exchange_bal_def Let_def)

lemma differs_by_more_than_1_percent:
  "0 < q \<Longrightarrow> (\<bar>b - q\<bar> / q * 100 > 1) = (q / 100 < \<bar>b - (q::real)\<bar>)"
  by (simp add: field_simps)

lemma detect_mismatches_filter:
  "detect_mismatches ts bs
     = map (mismatch_of bs)
         (filter (\<lambda>t. 0 < exchange_bal bs t \<and> 0 < quantity t
                      \<and> quantity t / 100 < \<bar>exchange_bal bs t - quantity t\<bar>) ts)"
proof (induction ts)
  case Nil
  then show ?case by simp
next
  case (Cons t ts)
  show ?case
  proof (cases "exchange_bal bs t \<le> 0 \<or> quantity t \<le> 0")
    case True
    then show ?thesis using Cons.IH
      by (auto simp: exchange_bal_def Let_def)
  next
    case False
    then have q: "0 < quantity t" and b: "0 < exchange_bal bs t" by simp_all
    show ?thesis using Cons.IH q b differs_by_more_than_1_percent[OF q, of "exchange_bal bs t"]
      by (simp add: exchange_bal_def mismatch_of_def Let_def)
  qed
qed


text \<open>
  C4, as amended. A mismatch is reported exactly for the open trades whose exchange
  balance and recorded quantity are both positive and differ by more than 1% of the
  recorded quantity. An open trade with a positive quantity and no exchange balance is
  reported as a zombie and not as a mismatch. The report of \<^verbatim>\<open>reconcile\<close> carries these
  two lists for the open trades and the balances of the account.
\<close>

theorem reconciliation_classes:
  "detect_zombies ts bs
     = map (zombie_of bs) (filter (\<lambda>t. exchange_bal bs t < quantity t / 100) ts)
   \<and> detect_mismatches ts bs
     = map (mismatch_of bs)
         (filter (\<lambda>t. 0 < exchange_bal bs t \<and> 0 < quantity t
                      \<and> quantity t / 100 < \<bar>exchange_bal bs t - quantity t\<bar>) ts)
   \<and> (t \<in> set ts \<and> exchange_bal bs t \<le> 0 \<and> 0 < quantity t
        \<longrightarrow> zombie_of bs t \<in> set (detect_zombies ts bs)
            \<and> mismatch_of bs t \<notin> set (detect_mismatches ts bs))
   \<and> (fst (reconcile w) = rep \<and> rp_success rep
        \<longrightarrow> rp_zombies rep
              = detect_zombies (get_open_trades w) (balances_dict (balances (the_account w)))
            \<and> rp_mismatches rep
              = detect_mismatches (get_open_trades w) (balances_dict (balances (the_account w))))"
proof -
  have 3: "t \<in> set ts \<and> exchange_bal bs t \<le> 0 \<and> 0 < quantity t
        \<longrightarrow> zombie_of bs t \<in> set (detect_zombies ts bs)
            \<and> mismatch_of bs t \<notin> set (detect_mismatches ts bs)"
  proof
    assume h: "t \<in> set ts \<and> exchange_bal bs t \<le> 0 \<and> 0 < quantity t"
    then have z: "exchange_bal bs t < quantity t / 100" by simp
    have a: "zombie_of bs t \<in> set (detect_zombies ts bs)"
      using h z by (simp add: detect_zombies_filter)
    have b: "mismatch_of bs t \<notin> set (detect_mismatches ts bs)"
    proof
      assume "mismatch_of bs t \<in> set (detect_mismatches ts bs)"
      then obtain u where u: "0 < exchange_bal bs u" "mismatch_of bs u = mismatch_of bs t"
        by (auto simp: detect_mismatches_filter)
      from u(2) have "m_exchange_balance (mismatch_of bs u) = m_exchange_balance (mismatch_of bs t)"
        by simp
      then have "exchange_bal bs u = exchange_bal bs t" by (simp add: mismatch_of_def)
      with u(1) h show False by simp
    qed
    from a b show "zombie_of bs t \<in> set (detect_zombies ts bs)
            \<and> mismatch_of bs t \<notin> set (detect_mismatches ts bs)" by simp
  qed
  have 4: "fst (reconcile w) = rep \<and> rp_success rep
        \<longrightarrow> rp_zombies rep
              = detect_zombies (get_open_trades w) (balances_dict (balances (the_account w)))
            \<and> rp_mismatches rep
              = detect_mismatches (get_open_trades w) (balances_dict (balances (the_account w)))"
    by (auto simp: reconcile_def Let_def split: if_splits prod.splits)
  from detect_zombies_filter detect_mismatches_filter 3 4 show ?thesis by blast
qed


text \<open>The 2 BTC held, against an exchange balance of 0: one zombie, no mismatch. Against
  1.9 BTC: a mismatch of 5 percent.\<close>

theorem reconciliation_classes_witness:
  "detect_zombies [btc_row] [(''BTC'', 0)]
     = [\<lparr>z_trade_id = ''1001'', z_symbol = ''BTCUSDT'', z_db_quantity = 2,
         z_exchange_balance = 0\<rparr>]
   \<and> detect_mismatches [btc_row] [(''BTC'', 0)] = []
   \<and> detect_mismatches [btc_row] [(''BTC'', 1.9)]
     = [\<lparr>m_trade_id = ''1001'', m_symbol = ''BTCUSDT'', m_db_quantity = 2,
         m_exchange_balance = 1.9, m_difference = - 0.1, m_difference_pct = 5\<rparr>]
   \<and> rp_mismatches (fst (reconcile holding_world)) = []
   \<and> length (rp_zombies (fst (reconcile holding_world))) = 1"
proof -
  have m: "btc_row \<in> set [btc_row] \<and> exchange_bal [(''BTC'', 0)] btc_row \<le> 0 \<and> 0 < quantity btc_row"
    by (simp add: recon_defs btc_row_def)
  have r: "fst (reconcile holding_world) = fst (reconcile holding_world)
           \<and> rp_success (fst (reconcile holding_world))"
    by (simp add: recon_defs eval_defs world_defs)
  have g: "get_open_trades holding_world = [btc_row]"
    by (simp add: eval_defs world_defs)
  have bd: "balances_dict (balances (the_account holding_world)) = [(''USDT'', 100)]"
    by (simp add: recon_defs world_defs)
  note T = reconciliation_classes[where ts = "[btc_row]" and bs = "[(''BTC'', 0)]"
      and t = btc_row and w = holding_world and rep = "fst (reconcile holding_world)"]
  from T m have "mismatch_of [(''BTC'', 0)] btc_row \<notin> set (detect_mismatches [btc_row] [(''BTC'', 0)])"
    by blast
  from T r have R: "rp_zombies (fst (reconcile holding_world))
              = detect_zombies (get_open_trades holding_world)
                  (balances_dict (balances (the_account holding_world)))
            \<and> rp_mismatches (fst (reconcile holding_world))
              = detect_mismatches (get_open_trades holding_world)
                  (balances_dict (balances (the_account holding_world)))"
    by blast
  have a: "detect_zombies [btc_row] [(''BTC'', 0)]
     = [\<lparr>z_trade_id = ''1001'', z_symbol = ''BTCUSDT'', z_db_quantity = 2,
         z_exchange_balance = 0\<rparr>]"
    by (simp add: recon_defs btc_row_def)
  have b: "detect_mismatches [btc_row] [(''BTC'', 0)] = []"
    by (simp add: recon_defs btc_row_def)
  have c: "detect_mismatches [btc_row] [(''BTC'', 1.9)]
     = [\<lparr>m_trade_id = ''1001'', m_symbol = ''BTCUSDT'', m_db_quantity = 2,
         m_exchange_balance = 1.9, m_difference = - 0.1, m_difference_pct = 5\<rparr>]"
    by (simp add: recon_defs btc_row_def)
  have d: "rp_mismatches (fst (reconcile holding_world)) = []"
    using R g bd by (simp add: recon_defs btc_row_def)
  have e: "length (rp_zombies (fst (reconcile holding_world))) = 1"
    using R g bd by (simp add: recon_defs btc_row_def)
  from a b c d e show ?thesis by blast
qed


text \<open>
  C4 as stated fails for a balance that is positive but below 1% of the quantity: the
  guard of \<^verbatim>\<open>detect_mismatches\<close> skips balances \<^verbatim>\<open><= 0\<close> only, so with 0.005 BTC on the
  exchange the 2 BTC position is reported as a zombie and as a mismatch.
\<close>

theorem zombie_also_mismatch:
  "rp_zombies (fst (reconcile trace_world))
     = [\<lparr>z_trade_id = ''1001'', z_symbol = ''BTCUSDT'', z_db_quantity = 2,
         z_exchange_balance = 0.005\<rparr>]
   \<and> rp_mismatches (fst (reconcile trace_world))
     = [\<lparr>m_trade_id = ''1001'', m_symbol = ''BTCUSDT'', m_db_quantity = 2,
         m_exchange_balance = 0.005, m_difference = - 1.995, m_difference_pct = 99.75\<rparr>]
   \<and> (0::real) < 0.005 \<and> (0.005::real) < 2 * 0.01"
  by (simp add: recon_defs eval_defs world_defs)

subsection \<open>A buy whose ledger insert fails\<close>















end
